theory Spec2Isabelle
  imports Complex_Main "HOL-Library.Sublist" "HOL-Library.Multiset"
begin

section \<open>Host-language values\<close>

subsection \<open>Strings\<close>

text \<open>
  A JavaScript string is a sequence of UTF-16 code units. Every string of the product table
  that the data layer reads (ids, names, categories, conditions, spec tags, image paths and
  inquiry messages) lies in the range U+0000..U+00FF, so a string is modelled as a list of
  8-bit characters, each read as the code unit of the same number. Queries and selections
  range over the same type.
\<close>

definition isWhiteSpace :: "char \<Rightarrow> bool" where
  \<comment> \<open>WhiteSpace and LineTerminator code units below U+0100:
      TAB, LF, VT, FF, CR, SP and NBSP.\<close>
  "isWhiteSpace c = ((of_char c :: nat) \<in> {9, 10, 11, 12, 13, 32, 160})"

definition trim :: "string \<Rightarrow> string" where
  \<comment> \<open>\<open>String.prototype.trim\<close>\<close>
  "trim s = rev (dropWhile isWhiteSpace (rev (dropWhile isWhiteSpace s)))"

definition lowerChar :: "char \<Rightarrow> char" where
  \<comment> \<open>The lower-case mapping on U+0000..U+00FF: A..Z, and the accented capitals
      U+00C0..U+00DE without the multiplication sign U+00D7, move up by 32.\<close>
  "lowerChar c =
     (let n = (of_char c :: nat)
      in if (65 \<le> n \<and> n \<le> 90) \<or> (192 \<le> n \<and> n \<le> 222 \<and> n \<noteq> 215)
         then char_of (n + 32) else c)"

definition toLowerCase :: "string \<Rightarrow> string" where
  \<comment> \<open>\<open>String.prototype.toLowerCase\<close>\<close>
  "toLowerCase s = map lowerChar s"

fun includes_js :: "string \<Rightarrow> string \<Rightarrow> bool" where
  \<comment> \<open>\<open>hay.includes(needle)\<close>: the needle occurs at some position of the hay\<close>
  "includes_js [] needle = (needle = [])"
| "includes_js (c # cs) needle = (prefix needle (c # cs) \<or> includes_js cs needle)"

subsection \<open>Numbers\<close>

text \<open>
  A JavaScript number is an IEEE 754 double. The finite ones are carried by their exact
  rational value; the two zeros are one value, which strict equality and truthiness cannot
  tell apart.
\<close>

datatype jsnumber = NaN | PosInf | NegInf | Fin rat

fun bitlen :: "nat \<Rightarrow> nat" where
  "bitlen n = (if n = 0 then 0 else Suc (bitlen (n div 2)))"

declare bitlen.simps [simp del]

definition pow2 :: "int \<Rightarrow> rat" where
  "pow2 k = (if 0 \<le> k then 2 ^ nat k else 1 / 2 ^ nat (- k))"

definition floorLog2 :: "rat \<Rightarrow> int" where
  \<comment> \<open>for \<open>q > 0\<close>: the \<open>e\<close> with \<open>2 ^ e \<le> q < 2 ^ (e + 1)\<close>\<close>
  "floorLog2 q =
     (let (a, b) = quotient_of q;
          d = int (bitlen (nat a)) - int (bitlen (nat b))
      in if pow2 d \<le> q then d else d - 1)"

definition roundDouble :: "rat \<Rightarrow> jsnumber" where
  \<comment> \<open>for \<open>q \<ge> 0\<close>: the double nearest to \<open>q\<close>, ties to the even significand\<close>
  "roundDouble q =
     (if q = 0 then Fin 0
      else
        let e = max (floorLog2 q) (- 1022);
            ulp = pow2 (e - 52);
            x = q / ulp;
            f = \<lfloor>x\<rfloor>;
            r = x - of_int f;
            m = (if r < 1 / 2 then f
                 else if 1 / 2 < r then f + 1
                 else if even f then f else f + 1);
            v = of_int m * ulp
        in if pow2 1024 \<le> v then PosInf else Fin v)"

fun negate :: "jsnumber \<Rightarrow> jsnumber" where
  "negate NaN = NaN"
| "negate PosInf = NegInf"
| "negate NegInf = PosInf"
| "negate (Fin q) = Fin (- q)"

definition isDigit :: "char \<Rightarrow> bool" where
  "isDigit c = (48 \<le> (of_char c :: nat) \<and> (of_char c :: nat) \<le> 57)"

definition digitVal :: "char \<Rightarrow> nat option" where
  \<comment> \<open>the value of a hexadecimal digit\<close>
  "digitVal c =
     (let n = (of_char c :: nat)
      in if 48 \<le> n \<and> n \<le> 57 then Some (n - 48)
         else if 65 \<le> n \<and> n \<le> 70 then Some (n - 55)
         else if 97 \<le> n \<and> n \<le> 102 then Some (n - 87)
         else None)"

fun digitsIn :: "nat \<Rightarrow> string \<Rightarrow> nat \<Rightarrow> nat option" where
  \<comment> \<open>the value of a digit string in the given radix, from an accumulator;
      \<open>None\<close> when a character is not a digit of the radix\<close>
  "digitsIn radix [] acc = Some acc"
| "digitsIn radix (c # cs) acc =
     (case digitVal c of
        None \<Rightarrow> None
      | Some d \<Rightarrow> if d < radix then digitsIn radix cs (acc * radix + d) else None)"

definition radixLiteral :: "nat \<Rightarrow> string \<Rightarrow> jsnumber" where
  \<comment> \<open>the digits after \<open>0x\<close>, \<open>0o\<close> or \<open>0b\<close>: at least one\<close>
  "radixLiteral radix ds =
     (if ds = [] then NaN
      else case digitsIn radix ds 0 of
             None \<Rightarrow> NaN
           | Some n \<Rightarrow> roundDouble (of_nat n))"

definition exponentPart :: "string \<Rightarrow> int option" where
  \<comment> \<open>what follows the mantissa: nothing, or \<open>e\<close>/\<open>E\<close>, an optional sign and digits\<close>
  "exponentPart s =
     (case s of
        [] \<Rightarrow> Some 0
      | c # r \<Rightarrow>
          if c = CHR ''e'' \<or> c = CHR ''E'' then
            (let (neg, ds) =
                   (case r of
                      [] \<Rightarrow> (False, [])
                    | d # r' \<Rightarrow>
                        if d = CHR ''-'' then (True, r')
                        else if d = CHR ''+'' then (False, r')
                        else (False, r))
             in if ds = [] then None
                else case digitsIn 10 ds 0 of
                       None \<Rightarrow> None
                     | Some n \<Rightarrow> Some (if neg then - int n else int n))
          else None)"

definition pow10 :: "int \<Rightarrow> rat" where
  "pow10 k = (if 0 \<le> k then 10 ^ nat k else 1 / 10 ^ nat (- k))"

definition unsignedDecimal :: "string \<Rightarrow> jsnumber" where
  \<comment> \<open>\<open>Infinity\<close>, or digits with an optional fraction and an optional exponent;
      at least one digit before or after the point\<close>
  "unsignedDecimal s =
     (if s = ''Infinity'' then PosInf
      else
        let ip = takeWhile isDigit s;
            r1 = dropWhile isDigit s;
            (fp, r2) =
              (case r1 of
                 [] \<Rightarrow> ([], [])
               | c # r \<Rightarrow>
                   if c = CHR ''.'' then (takeWhile isDigit r, dropWhile isDigit r)
                   else ([], r1))
        in if ip = [] \<and> fp = [] then NaN
           else case (digitsIn 10 (ip @ fp) 0, exponentPart r2) of
                  (Some n, Some e) \<Rightarrow> roundDouble (of_nat n * pow10 (e - int (length fp)))
                | _ \<Rightarrow> NaN)"

definition numericLiteral :: "string \<Rightarrow> jsnumber" where
  \<comment> \<open>a trimmed, non-empty string: a radix literal without sign, or a signed decimal\<close>
  "numericLiteral s =
     (case s of
        c # d # r \<Rightarrow>
          if c = CHR ''0'' \<and> (d = CHR ''x'' \<or> d = CHR ''X'') then radixLiteral 16 r
          else if c = CHR ''0'' \<and> (d = CHR ''o'' \<or> d = CHR ''O'') then radixLiteral 8 r
          else if c = CHR ''0'' \<and> (d = CHR ''b'' \<or> d = CHR ''B'') then radixLiteral 2 r
          else if c = CHR ''-'' then negate (unsignedDecimal (d # r))
          else if c = CHR ''+'' then unsignedDecimal (d # r)
          else unsignedDecimal s
      | _ \<Rightarrow> unsignedDecimal s)"

definition Number :: "string \<Rightarrow> jsnumber" where
  \<comment> \<open>\<open>Number(s)\<close> on a string: white space around the literal is dropped, the empty
      string is zero, and what is not a numeric literal is \<open>NaN\<close>\<close>
  "Number s = (let t = trim s in if t = [] then Fin 0 else numericLiteral t)"

fun strictEquals :: "jsnumber option \<Rightarrow> jsnumber option \<Rightarrow> bool" where
  \<comment> \<open>\<open>a === b\<close> on values that are a number or \<open>null\<close> (\<open>None\<close>)\<close>
  "strictEquals None None = True"
| "strictEquals (Some a) (Some b) = (a \<noteq> NaN \<and> a = b)"
| "strictEquals _ _ = False"

fun truthy :: "jsnumber option \<Rightarrow> bool" where
  \<comment> \<open>a number or \<open>null\<close> in a boolean position\<close>
  "truthy None = False"
| "truthy (Some NaN) = False"
| "truthy (Some (Fin q)) = (q \<noteq> 0)"
| "truthy (Some _) = True"

section \<open>The product table\<close>

text \<open>
  A product as the data layer reads it. The long \<open>description\<close> of a product is read only
  by the template of the detail page, holds a code unit above U+00FF in one entry, and is not
  carried by the record.
\<close>

record product =
  productId :: string
  name :: string
  category :: string
  series :: "jsnumber option"
  condition :: string
  specs :: "string list"
  gallery :: "string list"
  waMessage :: string

definition iph_17_pro_max :: product where
  "iph_17_pro_max =
     \<lparr>productId = ''iph-17-pro-max'',
      name = ''iPhone 17 Pro Max'',
      category = ''iphone'',
      series = Some (Fin 17),
      condition = ''nuevo'',
      specs = [''A19 Pro'', ''Titanio'', ''256GB''],
      gallery =
       [''img/phone/product/iphone_17/17_pro_max_png/17promax.png'',
        ''img/phone/product/iphone_17/iphone-17-series.webp''],
      waMessage = ''Hola, me interesa el iPhone 17 Pro Max''\<rparr>"

definition iph_17 :: product where
  "iph_17 =
     \<lparr>productId = ''iph-17'',
      name = ''iPhone 17'',
      category = ''iphone'',
      series = Some (Fin 17),
      condition = ''nuevo'',
      specs = [''A19'', (''6.1'' @ [CHR 0x22]), ''128GB''],
      gallery =
       [''img/phone/product/iphone_17/17_plus/iphone-17.png'',
        ''img/phone/product/iphone_17/iphone-17-series.webp''],
      waMessage = ''Hola, me interesa el iPhone 17''\<rparr>"

definition iph_16_pro_max :: product where
  "iph_16_pro_max =
     \<lparr>productId = ''iph-16-pro-max'',
      name = ''iPhone 16 Pro Max'',
      category = ''iphone'',
      series = Some (Fin 16),
      condition = ''nuevo'',
      specs = [''A18 Pro'', ''Titanio'', ''256GB''],
      gallery =
       [''img/phone/product/iphone_16/16_pro_max/16_pro_max.png'',
        ''img/phone/product/iphone_16/0021697_iphone-16-16-plus-series.jpeg''],
      waMessage = ''Hola, me interesa el iPhone 16 Pro Max''\<rparr>"

definition iph_16 :: product where
  "iph_16 =
     \<lparr>productId = ''iph-16'',
      name = ''iPhone 16 Negro'',
      category = ''iphone'',
      series = Some (Fin 16),
      condition = ''nuevo'',
      specs = [''A18'', (''6.1'' @ [CHR 0x22]), ''128GB'', ''Negro Titanio''],
      gallery =
       [''img/phone/product/iphone_16/png/iphone_16_black_titanium.png'',
        ''img/phone/product/iphone_16/iphone-16-finish-select-202409-6-1inch-black.jfif''],
      waMessage = ''Hola, me interesa el iPhone 16 en Negro Titanio''\<rparr>"

definition iph_16_pink :: product where
  "iph_16_pink =
     \<lparr>productId = ''iph-16-pink'',
      name = ''iPhone 16 Rosa'',
      category = ''iphone'',
      series = Some (Fin 16),
      condition = ''nuevo'',
      specs = [''A18'', (''6.1'' @ [CHR 0x22]), ''128GB'', ''Rosa''],
      gallery =
       [''img/phone/product/iphone_16/png/iphone_16_pink.png'',
        ''img/phone/product/iphone_16/iPhone-16-Teal-1.png''],
      waMessage = ''Hola, me interesa el iPhone 16 en color Rosa''\<rparr>"

definition iph_16_white :: product where
  "iph_16_white =
     \<lparr>productId = ''iph-16-white'',
      name = ''iPhone 16 Blanco'',
      category = ''iphone'',
      series = Some (Fin 16),
      condition = ''nuevo'',
      specs = [''A18'', (''6.1'' @ [CHR 0x22]), ''128GB'', ''Blanco''],
      gallery =
       [''img/phone/product/iphone_16/png/iphone_16_white.png'',
        ''img/phone/product/iphone_16/0021697_iphone-16-16-plus-series.jpeg''],
      waMessage = ''Hola, me interesa el iPhone 16 en color Blanco''\<rparr>"

definition iph_15_pro_max :: product where
  "iph_15_pro_max =
     \<lparr>productId = ''iph-15-pro-max'',
      name = ''iPhone 15 Pro Max'',
      category = ''iphone'',
      series = Some (Fin 15),
      condition = ''nuevo'',
      specs = [''A17 Pro'', ''Titanio'', ''256GB''],
      gallery =
       [''img/phone/product/iphone_15/15_pro_max/15_pro_max.png'',
        ''img/phone/iphone-15-pro-max-blue-titanium-256gb-back_4.jpg''],
      waMessage = ''Hola, me interesa el iPhone 15 Pro Max''\<rparr>"

definition iph_15_black :: product where
  "iph_15_black =
     \<lparr>productId = ''iph-15-black'',
      name = ''iPhone 15 Negro'',
      category = ''iphone'',
      series = Some (Fin 15),
      condition = ''certificado'',
      specs = [''A16 Bionic'', (''6.1'' @ [CHR 0x22]), ''128GB''],
      gallery =
       [''img/phone/product/iphone_15/iphone_15/iphone_15_black.png'',
        ''img/phone/product/iphone_15/iphone_15/iphone_15_cream_1.png''],
      waMessage = ''Hola, me interesa el iPhone 15 Negro certificado''\<rparr>"

definition iph_15_cream :: product where
  "iph_15_cream =
     \<lparr>productId = ''iph-15-cream'',
      name = ''iPhone 15 Crema'',
      category = ''iphone'',
      series = Some (Fin 15),
      condition = ''certificado'',
      specs = [''A16 Bionic'', (''6.1'' @ [CHR 0x22]), ''128GB'', ''Crema''],
      gallery =
       [''img/phone/product/iphone_15/iphone_15/iphone_15_cream_1.png'',
        ''img/phone/product/iphone_15/iphone_15/iphone_15_white.png''],
      waMessage = ''Hola, me interesa el iPhone 15 en color Crema''\<rparr>"

definition iph_15_white :: product where
  "iph_15_white =
     \<lparr>productId = ''iph-15-white'',
      name = ''iPhone 15 Blanco'',
      category = ''iphone'',
      series = Some (Fin 15),
      condition = ''certificado'',
      specs = [''A16 Bionic'', (''6.1'' @ [CHR 0x22]), ''128GB'', ''Blanco''],
      gallery =
       [''img/phone/product/iphone_15/iphone_15/iphone_15_white.png'',
        ''img/phone/product/iphone_15/iphone_15/iphone_15_cream_1.png''],
      waMessage = ''Hola, me interesa el iPhone 15 en color Blanco''\<rparr>"

definition acc_cargador_40w :: product where
  "acc_cargador_40w =
     \<lparr>productId = ''acc-cargador-40w'',
      name = ''Cargador Apple 40W'',
      category = ''accesorio'',
      series = None,
      condition = ''nuevo'',
      specs = [''Original Apple'', ''40W'', ''USB-C''],
      gallery =
       [''img/accesorys/cargador40w/PNG/40w.png''],
      waMessage = ''Hola, me interesa el Cargador Apple 40W''\<rparr>"

definition acc_cable_typec :: product where
  "acc_cable_typec =
     \<lparr>productId = ''acc-cable-typec'',
      name = ''Cable Anker USB-C'',
      category = ''accesorio'',
      series = None,
      condition = ''nuevo'',
      specs = [''Nylon trenzado'', ''1 metro'', ''USB-C a USB-C''],
      gallery =
       [''img/accesorys/cableTypeC/PNG/cabletypec.png''],
      waMessage = ''Hola, me interesa el Cable Anker USB-C''\<rparr>"

definition acc_airpods_4 :: product where
  "acc_airpods_4 =
     \<lparr>productId = ''acc-airpods-4'',
      name = ''AirPods Serie 4'',
      category = ''accesorio'',
      series = None,
      condition = ''nuevo'',
      specs = [''Original Apple'', ''ANC activo'', ''USB-C'', ''H2 chip''],
      gallery =
       [''img/accesorys/airpods/serie4/PNG/airpods-serie4.png''],
      waMessage = ''Hola, me interesa los AirPods Serie 4''\<rparr>"

definition rep_camara_frontal_15 :: product where
  "rep_camara_frontal_15 =
     \<lparr>productId = ''rep-camara-frontal-15'',
      name = (''C'' @ [CHR 0xE1] @ ''mara Frontal 15 Pro Max''),
      category = ''repuesto'',
      series = None,
      condition = ''nuevo'',
      specs = [''Original Apple'', ''Serie 13 al 15'', (''Incluye instalaci'' @ [CHR 0xF3] @ ''n'')],
      gallery =
       [''img/accesorys/camara_iphone_pro_max/iphone_15_pro_max/PNG/camara-accesory-iphone-15-pro-max.png''],
      waMessage = (''Hola, me interesa la C'' @ [CHR 0xE1] @ ''mara Frontal para mi iPhone'')\<rparr>"

definition rep_camara_trasera_14 :: product where
  "rep_camara_trasera_14 =
     \<lparr>productId = ''rep-camara-trasera-14'',
      name = (''C'' @ [CHR 0xE1] @ ''mara Trasera Serie 14''),
      category = ''repuesto'',
      series = None,
      condition = ''nuevo'',
      specs = [''Original Apple'', ''Serie 14 al 16'', (''Incluye instalaci'' @ [CHR 0xF3] @ ''n'')],
      gallery =
       [''img/accesorys/camara_iphone_pro_max/trasera-iphone_14/PNG/camara-trasera_iphone14.png''],
      waMessage = (''Hola, me interesa la C'' @ [CHR 0xE1] @ ''mara Trasera para mi iPhone'')\<rparr>"

definition rep_bateria_15 :: product where
  "rep_bateria_15 =
     \<lparr>productId = ''rep-bateria-15'',
      name = (''Bater'' @ [CHR 0xED] @ ''a iPhone 15 Pro Max''),
      category = ''repuesto'',
      series = None,
      condition = ''nuevo'',
      specs = [''Original Apple'', ''Serie 14 al 16'', (''Incluye instalaci'' @ [CHR 0xF3] @ ''n''), ''100% salud''],
      gallery =
       [''img/accesorys/bateries/PNG/bateries-iphone-15-pro-max.png''],
      waMessage = (''Hola, me interesa el reemplazo de Bater'' @ [CHR 0xED] @ ''a para mi iPhone'')\<rparr>"

definition PRODUCTS :: "product list" where
  "PRODUCTS =
     [iph_17_pro_max, iph_17, iph_16_pro_max, iph_16, iph_16_pink, iph_16_white,
      iph_15_pro_max, iph_15_black, iph_15_cream, iph_15_white, acc_cargador_40w,
      acc_cable_typec, acc_airpods_4, rep_camara_frontal_15, rep_camara_trasera_14,
      rep_bateria_15]"

section \<open>Lookup and related products\<close>

definition findProductById :: "string \<Rightarrow> product option" where
  \<comment> \<open>\<open>PRODUCTS.find(p => p.id === id)\<close>; \<open>None\<close> is \<open>undefined\<close>\<close>
  "findProductById ident = find (\<lambda>p. productId p = ident) PRODUCTS"

definition MAX_RELATED :: nat where
  "MAX_RELATED = 4"

definition relatedIn :: "product list \<Rightarrow> product \<Rightarrow> product list" where
  \<comment> \<open>the body of \<open>getRelatedProducts\<close> over an explicit table\<close>
  "relatedIn table product =
     take MAX_RELATED
       (filter (\<lambda>p. productId p \<noteq> productId product \<and>
                    ((truthy (series p) \<and> strictEquals (series p) (series product)) \<or>
                     category p = category product))
          table)"

definition getRelatedProducts :: "product \<Rightarrow> product list" where
  "getRelatedProducts product = relatedIn PRODUCTS product"

section \<open>The filter pipeline of the catalog page\<close>

record filterState =
  st_category :: string
  st_series :: string
  st_condition :: string
  st_search :: string

definition filterByCategory :: "product list \<Rightarrow> string \<Rightarrow> product list" where
  "filterByCategory products cat =
     (if cat = ''all'' then products
      else filter (\<lambda>p. category p = cat) products)"

definition filterBySeries :: "product list \<Rightarrow> string \<Rightarrow> product list" where
  "filterBySeries products ser =
     (if ser = ''all'' then products
      else filter (\<lambda>p. strictEquals (series p) (Some (Number ser))) products)"

definition filterByCondition :: "product list \<Rightarrow> string \<Rightarrow> product list" where
  "filterByCondition products cond =
     (if cond = ''all'' then products
      else filter (\<lambda>p. condition p = cond) products)"

definition searchMatches :: "string \<Rightarrow> product \<Rightarrow> bool" where
  \<comment> \<open>the callback of \<open>filterBySearch\<close>, on the lowered query\<close>
  "searchMatches normalized p =
     (includes_js (toLowerCase (name p)) normalized \<or>
      list_ex (\<lambda>s. includes_js (toLowerCase s) normalized) (specs p))"

definition filterBySearch :: "product list \<Rightarrow> string \<Rightarrow> product list" where
  "filterBySearch products query =
     (if trim query = [] then products
      else let normalized = toLowerCase query
           in filter (searchMatches normalized) products)"

definition stages :: "filterState \<Rightarrow> (product list \<Rightarrow> product list) list" where
  \<comment> \<open>the array of four closures that \<open>getFilteredProducts\<close> reduces over\<close>
  "stages st =
     [\<lambda>p. filterByCategory p (st_category st),
      \<lambda>p. filterBySeries p (st_series st),
      \<lambda>p. filterByCondition p (st_condition st),
      \<lambda>p. filterBySearch p (st_search st)]"

definition reduce :: "('a \<Rightarrow> 'a) list \<Rightarrow> 'a \<Rightarrow> 'a" where
  \<comment> \<open>\<open>fns.reduce((products, fn) => fn(products), init)\<close>\<close>
  "reduce fns init = foldl (\<lambda>products fn. fn products) init fns"

definition applyFilters :: "product list \<Rightarrow> filterState \<Rightarrow> product list" where
  \<comment> \<open>the body of \<open>getFilteredProducts\<close> over an explicit table and filter state\<close>
  "applyFilters catalog st = reduce (stages st) catalog"

definition getFilteredProducts :: "filterState \<Rightarrow> product list" where
  "getFilteredProducts st = applyFilters PRODUCTS st"

section \<open>Badges\<close>

record badge =
  cssClass :: string
  label :: string

text \<open>
  The badge table is an object literal indexed by a string. \<open>None\<close> stands for a key the
  literal does not define: the lookup then gives \<open>undefined\<close> or a member inherited
  from \<open>Object.prototype\<close>, in either case no badge record.
\<close>

definition catalogo_MAP :: "string \<Rightarrow> badge option" where
  "catalogo_MAP = map_of
     [(''nuevo'', \<lparr>cssClass = ''catalog-card__badge--new'', label = ''Nuevo''\<rparr>),
      (''certificado'',
         \<lparr>cssClass = ''catalog-card__badge--certified'', label = ''Certificado''\<rparr>),
      (''accesorio'', \<lparr>cssClass = ''catalog-card__badge--accessory'', label = ''Accesorio''\<rparr>),
      (''repuesto'', \<lparr>cssClass = ''catalog-card__badge--accessory'', label = ''Repuesto''\<rparr>)]"

definition catalogo_resolveBadge :: "product \<Rightarrow> badge option" where
  \<comment> \<open>\<open>resolveBadge\<close> of the catalog page\<close>
  "catalogo_resolveBadge product =
     (if category product \<noteq> ''iphone'' then catalogo_MAP (category product)
      else catalogo_MAP (condition product))"

definition producto_MAP :: "string \<Rightarrow> badge option" where
  "producto_MAP = map_of
     [(''nuevo'', \<lparr>cssClass = ''product-detail__badge--nuevo'', label = ''Nuevo''\<rparr>),
      (''certificado'',
         \<lparr>cssClass = ''product-detail__badge--certificado'', label = ''Certificado PSM''\<rparr>),
      (''accesorio'', \<lparr>cssClass = ''product-detail__badge--accesorio'', label = ''Accesorio''\<rparr>),
      (''repuesto'', \<lparr>cssClass = ''product-detail__badge--repuesto'', label = ''Repuesto''\<rparr>)]"

definition producto_resolveBadge :: "product \<Rightarrow> badge option" where
  \<comment> \<open>\<open>resolveBadge\<close> of the product detail page\<close>
  "producto_resolveBadge product =
     (if category product \<noteq> ''iphone'' then producto_MAP (category product)
      else producto_MAP (condition product))"

section \<open>The filter stages over a store of arrays\<close>

text \<open>
  An array is an object: a stage receives a reference and returns a reference. The store is
  the list of the arrays allocated so far, a reference is a position in it, and allocation
  appends. \<open>Array.prototype.filter\<close> allocates its result; the early \<open>return products\<close>
  of a stage hands back the reference it was given. \<open>None\<close> stands for a reference that
  names no array of the store, which the language cannot produce.
\<close>

type_synonym ref = nat

type_synonym store = "product list list"

definition alloc :: "store \<Rightarrow> product list \<Rightarrow> store \<times> ref" where
  "alloc h xs = (h @ [xs], length h)"

definition array_filter :: "(product \<Rightarrow> bool) \<Rightarrow> store \<Rightarrow> ref \<Rightarrow> (store \<times> ref) option" where
  "array_filter P h r = (if r < length h then Some (alloc h (filter P (h ! r))) else None)"

definition filterByCategory_ref :: "store \<Rightarrow> ref \<Rightarrow> string \<Rightarrow> (store \<times> ref) option" where
  "filterByCategory_ref h products cat =
     (if cat = ''all'' then Some (h, products)
      else array_filter (\<lambda>p. category p = cat) h products)"

definition filterBySeries_ref :: "store \<Rightarrow> ref \<Rightarrow> string \<Rightarrow> (store \<times> ref) option" where
  "filterBySeries_ref h products ser =
     (if ser = ''all'' then Some (h, products)
      else array_filter (\<lambda>p. strictEquals (series p) (Some (Number ser))) h products)"

definition filterByCondition_ref :: "store \<Rightarrow> ref \<Rightarrow> string \<Rightarrow> (store \<times> ref) option" where
  "filterByCondition_ref h products cond =
     (if cond = ''all'' then Some (h, products)
      else array_filter (\<lambda>p. condition p = cond) h products)"

definition filterBySearch_ref :: "store \<Rightarrow> ref \<Rightarrow> string \<Rightarrow> (store \<times> ref) option" where
  "filterBySearch_ref h products query =
     (if trim query = [] then Some (h, products)
      else let normalized = toLowerCase query
           in array_filter (searchMatches normalized) h products)"

definition stage_effect ::
  "store \<Rightarrow> ref \<Rightarrow> (store \<times> ref) option \<Rightarrow> product list \<Rightarrow> bool \<Rightarrow> bool" where
  \<comment> \<open>what a stage does to the store \<open>h\<close> when given the array \<open>r\<close>: it returns; every array
      of \<open>h\<close> is still there with its content; the returned reference holds \<open>out\<close>; and the
      returned reference is \<open>r\<close> itself with the store as it was (\<open>same\<close>), or the one
      array allocated by the call\<close>
  "stage_effect h r res out same =
     (case res of
        None \<Rightarrow> False
      | Some (h', r') \<Rightarrow>
          prefix h h' \<and> r' < length h' \<and> h' ! r' = out \<and>
          (if same then h' = h \<and> r' = r else h' = h @ [out] \<and> r' = length h))"

section \<open>Case-insensitive containment, as the specification words it\<close>

definition equalIgnoringCase :: "string \<Rightarrow> string \<Rightarrow> bool" where
  \<comment> \<open>the same length, and at each position the same character up to case\<close>
  "equalIgnoringCase a b = list_all2 (\<lambda>x y. lowerChar x = lowerChar y) a b"

definition containsIgnoringCase :: "string \<Rightarrow> string \<Rightarrow> bool" where
  \<comment> \<open>some contiguous piece of \<open>hay\<close> equals the needle up to case\<close>
  "containsIgnoringCase hay needle = list_ex (\<lambda>piece. equalIgnoringCase piece needle) (sublists hay)"

section \<open>Facts about the table\<close>

lemmas product_defs =
  iph_17_pro_max_def iph_17_def iph_16_pro_max_def iph_16_def iph_16_pink_def
  iph_16_white_def iph_15_pro_max_def iph_15_black_def iph_15_cream_def iph_15_white_def
  acc_cargador_40w_def acc_cable_typec_def acc_airpods_4_def rep_camara_frontal_15_def
  rep_camara_trasera_14_def rep_bateria_15_def

lemma product_ids:
  "productId iph_17_pro_max = ''iph-17-pro-max''"
  "productId iph_17 = ''iph-17''"
  "productId iph_16_pro_max = ''iph-16-pro-max''"
  "productId iph_16 = ''iph-16''"
  "productId iph_16_pink = ''iph-16-pink''"
  "productId iph_16_white = ''iph-16-white''"
  "productId iph_15_pro_max = ''iph-15-pro-max''"
  "productId iph_15_black = ''iph-15-black''"
  "productId iph_15_cream = ''iph-15-cream''"
  "productId iph_15_white = ''iph-15-white''"
  "productId acc_cargador_40w = ''acc-cargador-40w''"
  "productId acc_cable_typec = ''acc-cable-typec''"
  "productId acc_airpods_4 = ''acc-airpods-4''"
  "productId rep_camara_frontal_15 = ''rep-camara-frontal-15''"
  "productId rep_camara_trasera_14 = ''rep-camara-trasera-14''"
  "productId rep_bateria_15 = ''rep-bateria-15''"
  by (simp_all add: product_defs)

lemma product_names:
  "name iph_17_pro_max = ''iPhone 17 Pro Max''"
  "name iph_17 = ''iPhone 17''"
  "name iph_16_pro_max = ''iPhone 16 Pro Max''"
  "name iph_16 = ''iPhone 16 Negro''"
  "name iph_16_pink = ''iPhone 16 Rosa''"
  "name iph_16_white = ''iPhone 16 Blanco''"
  "name iph_15_pro_max = ''iPhone 15 Pro Max''"
  "name iph_15_black = ''iPhone 15 Negro''"
  "name iph_15_cream = ''iPhone 15 Crema''"
  "name iph_15_white = ''iPhone 15 Blanco''"
  "name acc_cargador_40w = ''Cargador Apple 40W''"
  "name acc_cable_typec = ''Cable Anker USB-C''"
  "name acc_airpods_4 = ''AirPods Serie 4''"
  "name rep_camara_frontal_15 = (''C'' @ [CHR 0xE1] @ ''mara Frontal 15 Pro Max'')"
  "name rep_camara_trasera_14 = (''C'' @ [CHR 0xE1] @ ''mara Trasera Serie 14'')"
  "name rep_bateria_15 = (''Bater'' @ [CHR 0xED] @ ''a iPhone 15 Pro Max'')"
  by (simp_all add: product_defs)

lemma product_categories:
  "category iph_17_pro_max = ''iphone''"
  "category iph_17 = ''iphone''"
  "category iph_16_pro_max = ''iphone''"
  "category iph_16 = ''iphone''"
  "category iph_16_pink = ''iphone''"
  "category iph_16_white = ''iphone''"
  "category iph_15_pro_max = ''iphone''"
  "category iph_15_black = ''iphone''"
  "category iph_15_cream = ''iphone''"
  "category iph_15_white = ''iphone''"
  "category acc_cargador_40w = ''accesorio''"
  "category acc_cable_typec = ''accesorio''"
  "category acc_airpods_4 = ''accesorio''"
  "category rep_camara_frontal_15 = ''repuesto''"
  "category rep_camara_trasera_14 = ''repuesto''"
  "category rep_bateria_15 = ''repuesto''"
  by (simp_all add: product_defs)

lemma product_series:
  "series iph_17_pro_max = Some (Fin 17)"
  "series iph_17 = Some (Fin 17)"
  "series iph_16_pro_max = Some (Fin 16)"
  "series iph_16 = Some (Fin 16)"
  "series iph_16_pink = Some (Fin 16)"
  "series iph_16_white = Some (Fin 16)"
  "series iph_15_pro_max = Some (Fin 15)"
  "series iph_15_black = Some (Fin 15)"
  "series iph_15_cream = Some (Fin 15)"
  "series iph_15_white = Some (Fin 15)"
  "series acc_cargador_40w = None"
  "series acc_cable_typec = None"
  "series acc_airpods_4 = None"
  "series rep_camara_frontal_15 = None"
  "series rep_camara_trasera_14 = None"
  "series rep_bateria_15 = None"
  by (simp_all add: product_defs)

lemma product_conditions:
  "condition iph_17_pro_max = ''nuevo''"
  "condition iph_17 = ''nuevo''"
  "condition iph_16_pro_max = ''nuevo''"
  "condition iph_16 = ''nuevo''"
  "condition iph_16_pink = ''nuevo''"
  "condition iph_16_white = ''nuevo''"
  "condition iph_15_pro_max = ''nuevo''"
  "condition iph_15_black = ''certificado''"
  "condition iph_15_cream = ''certificado''"
  "condition iph_15_white = ''certificado''"
  "condition acc_cargador_40w = ''nuevo''"
  "condition acc_cable_typec = ''nuevo''"
  "condition acc_airpods_4 = ''nuevo''"
  "condition rep_camara_frontal_15 = ''nuevo''"
  "condition rep_camara_trasera_14 = ''nuevo''"
  "condition rep_bateria_15 = ''nuevo''"
  by (simp_all add: product_defs)

lemma product_specs:
  "specs iph_17_pro_max = [''A19 Pro'', ''Titanio'', ''256GB'']"
  "specs iph_17 = [''A19'', (''6.1'' @ [CHR 0x22]), ''128GB'']"
  "specs iph_16_pro_max = [''A18 Pro'', ''Titanio'', ''256GB'']"
  "specs iph_16 = [''A18'', (''6.1'' @ [CHR 0x22]), ''128GB'', ''Negro Titanio'']"
  "specs iph_16_pink = [''A18'', (''6.1'' @ [CHR 0x22]), ''128GB'', ''Rosa'']"
  "specs iph_16_white = [''A18'', (''6.1'' @ [CHR 0x22]), ''128GB'', ''Blanco'']"
  "specs iph_15_pro_max = [''A17 Pro'', ''Titanio'', ''256GB'']"
  "specs iph_15_black = [''A16 Bionic'', (''6.1'' @ [CHR 0x22]), ''128GB'']"
  "specs iph_15_cream = [''A16 Bionic'', (''6.1'' @ [CHR 0x22]), ''128GB'', ''Crema'']"
  "specs iph_15_white = [''A16 Bionic'', (''6.1'' @ [CHR 0x22]), ''128GB'', ''Blanco'']"
  "specs acc_cargador_40w = [''Original Apple'', ''40W'', ''USB-C'']"
  "specs acc_cable_typec = [''Nylon trenzado'', ''1 metro'', ''USB-C a USB-C'']"
  "specs acc_airpods_4 = [''Original Apple'', ''ANC activo'', ''USB-C'', ''H2 chip'']"
  "specs rep_camara_frontal_15 = [''Original Apple'', ''Serie 13 al 15'', (''Incluye instalaci'' @ [CHR 0xF3] @ ''n'')]"
  "specs rep_camara_trasera_14 = [''Original Apple'', ''Serie 14 al 16'', (''Incluye instalaci'' @ [CHR 0xF3] @ ''n'')]"
  "specs rep_bateria_15 = [''Original Apple'', ''Serie 14 al 16'', (''Incluye instalaci'' @ [CHR 0xF3] @ ''n''), ''100% salud'']"
  by (simp_all add: product_defs)

lemma PRODUCTS_length: "length PRODUCTS = 16"
  by (simp add: PRODUCTS_def)

lemma PRODUCTS_ids_distinct: "distinct (map productId PRODUCTS)"
  by (simp add: PRODUCTS_def product_ids)

section \<open>Facts about number coercion\<close>

lemma bitlen_16: "bitlen 16 = 5" "bitlen (Suc 0) = 1"
  by (simp_all add: bitlen.simps)

lemma floorLog2_16: "floorLog2 16 = 4"
  by (simp add: floorLog2_def bitlen_16 pow2_def)

lemma roundDouble_16: "roundDouble 16 = Fin 16"
  by (simp add: roundDouble_def floorLog2_16 pow2_def Let_def)

lemma Number_16: "Number ''16'' = Fin 16"
  by (simp add: Number_def trim_def isWhiteSpace_def numericLiteral_def unsignedDecimal_def
      isDigit_def digitVal_def exponentPart_def pow10_def roundDouble_16)

lemma Number_blank: "trim s = [] \<Longrightarrow> Number s = Fin 0"
  by (simp add: Number_def)

section \<open>The Series-16 scenario\<close>

text \<open>
  Claim C1. On the seeded table, the pipeline with the filter state
  \<open>{category: "iphone", series: "16", condition: "all", search: ""}\<close> returns exactly the
  four Series-16 iPhone records \<open>iph-16-pro-max\<close>, \<open>iph-16\<close>, \<open>iph-16-pink\<close> and
  \<open>iph-16-white\<close>, in the order of the table. (The table itself has 16 entries, see
  \<open>PRODUCTS_length\<close>.)
\<close>

theorem getFilteredProducts_series_16:
  "getFilteredProducts
     \<lparr>st_category = ''iphone'', st_series = ''16'', st_condition = ''all'', st_search = ''''\<rparr>
   = [iph_16_pro_max, iph_16, iph_16_pink, iph_16_white]"
  by (simp add: getFilteredProducts_def applyFilters_def reduce_def stages_def
      filterByCategory_def filterBySeries_def filterByCondition_def filterBySearch_def
      trim_def Number_16 PRODUCTS_def product_categories product_series)

section \<open>Badge labels\<close>

text \<open>
  Claim C2, as stated, asks both pages to label a certified iPhone "Certificado". The detail
  page does not: for the certified iPhone \<open>iph-15-black\<close> its label is another string.
\<close>

theorem producto_resolveBadge_certificado_counterexample:
  "category iph_15_black = ''iphone'' \<and> condition iph_15_black = ''certificado'' \<and>
   map_option label (producto_resolveBadge iph_15_black) \<noteq> Some ''Certificado''"
  by (simp add: producto_resolveBadge_def producto_MAP_def product_categories
      product_conditions)

text \<open>
  Claim C2, amended. For every product \<open>p\<close> of category "iphone" and condition "certificado"
  the catalog page's badge has the label "Certificado" and the detail page's badge has the
  label "Certificado PSM"; for every product \<open>q\<close> of category "accesorio" both pages give a
  badge with the label "Accesorio".
\<close>

theorem resolveBadge_labels:
  "(category p = ''iphone'' \<and> condition p = ''certificado'' \<longrightarrow>
      map_option label (catalogo_resolveBadge p) = Some ''Certificado'' \<and>
      map_option label (producto_resolveBadge p) = Some ''Certificado PSM'') \<and>
   (category q = ''accesorio'' \<longrightarrow>
      map_option label (catalogo_resolveBadge q) = Some ''Accesorio'' \<and>
      map_option label (producto_resolveBadge q) = Some ''Accesorio'')"
  by (simp add: catalogo_resolveBadge_def producto_resolveBadge_def catalogo_MAP_def
      producto_MAP_def)

theorem resolveBadge_labels_witness:
  "category iph_15_black = ''iphone'' \<and> condition iph_15_black = ''certificado'' \<and>
   category acc_airpods_4 = ''accesorio'' \<and>
   map_option label (catalogo_resolveBadge iph_15_black) = Some ''Certificado'' \<and>
   map_option label (producto_resolveBadge iph_15_black) = Some ''Certificado PSM'' \<and>
   map_option label (catalogo_resolveBadge acc_airpods_4) = Some ''Accesorio'' \<and>
   map_option label (producto_resolveBadge acc_airpods_4) = Some ''Accesorio''"
  using resolveBadge_labels [of iph_15_black acc_airpods_4]
  by (simp add: product_categories product_conditions)

section \<open>Lookup by identifier\<close>

lemma find_by_key:
  "distinct (map f xs) \<Longrightarrow> x \<in> set xs \<Longrightarrow> find (\<lambda>y. f y = f x) xs = Some x"
  by (induction xs) auto

text \<open>
  Claim C9. For every product \<open>p\<close> of the seeded table, \<open>findProductById\<close> at the id of
  \<open>p\<close> returns \<open>p\<close>; for every id string that no product of the table carries it returns
  the absence value (\<open>undefined\<close>, here \<open>None\<close>). The function has no failing branch.
\<close>

theorem findProductById_roundtrip:
  "(p \<in> set PRODUCTS \<longrightarrow> findProductById (productId p) = Some p) \<and>
   (ident \<notin> productId ` set PRODUCTS \<longrightarrow> findProductById ident = None)"
proof (intro conjI impI)
  assume "p \<in> set PRODUCTS"
  then show "findProductById (productId p) = Some p"
    unfolding findProductById_def by (rule find_by_key [OF PRODUCTS_ids_distinct])
next
  assume "ident \<notin> productId ` set PRODUCTS"
  then show "findProductById ident = None"
    unfolding findProductById_def by (auto simp: find_None_iff)
qed

theorem findProductById_roundtrip_witness:
  "iph_16 \<in> set PRODUCTS \<and> ''nonexistent-id'' \<notin> productId ` set PRODUCTS \<and>
   findProductById ''iph-16'' = Some iph_16 \<and> findProductById ''nonexistent-id'' = None"
proof -
  have a: "iph_16 \<in> set PRODUCTS"
    by (simp add: PRODUCTS_def)
  have b: "''nonexistent-id'' \<notin> productId ` set PRODUCTS"
    by (simp add: PRODUCTS_def product_ids)
  from a b findProductById_roundtrip [of iph_16 "''nonexistent-id''"]
  show ?thesis by (simp add: product_ids)
qed

section \<open>Related products\<close>

lemma subseq_take_filter: "subseq (take n (filter P xs)) xs"
  by (rule subseq_order.order_trans [OF prefix_imp_subseq [OF take_is_prefix] subseq_filter_left])

lemma truthy_not_null: "truthy v \<Longrightarrow> v \<noteq> None"
  by (cases v) simp_all

lemma getRelatedProducts_iph_16:
  "getRelatedProducts iph_16 = [iph_17_pro_max, iph_17, iph_16_pro_max, iph_16_pink]"
  by (simp add: getRelatedProducts_def relatedIn_def MAX_RELATED_def PRODUCTS_def
      product_ids product_categories product_series)

text \<open>
  Claim C4. For every product \<open>p\<close> (in particular every product of the table),
  \<open>getRelatedProducts p\<close> does not hold \<open>p\<close>, has at most 4 entries, every entry \<open>e\<close> of it
  has a non-null series strictly equal to the series of \<open>p\<close> or the category of \<open>p\<close>, and the
  entries come in the order of the table.
\<close>

theorem getRelatedProducts_bounded:
  "p \<notin> set (getRelatedProducts p) \<and>
   length (getRelatedProducts p) \<le> 4 \<and>
   (\<forall>e \<in> set (getRelatedProducts p).
      (series e \<noteq> None \<and> strictEquals (series e) (series p)) \<or> category e = category p) \<and>
   subseq (getRelatedProducts p) PRODUCTS"
proof (intro conjI ballI)
  show "p \<notin> set (getRelatedProducts p)"
    by (auto simp: getRelatedProducts_def relatedIn_def dest: in_set_takeD)
  show "length (getRelatedProducts p) \<le> 4"
    by (simp add: getRelatedProducts_def relatedIn_def MAX_RELATED_def)
  show "subseq (getRelatedProducts p) PRODUCTS"
    unfolding getRelatedProducts_def relatedIn_def by (rule subseq_take_filter)
next
  fix e
  assume "e \<in> set (getRelatedProducts p)"
  then have "(truthy (series e) \<and> strictEquals (series e) (series p)) \<or>
      category e = category p"
    by (auto simp: getRelatedProducts_def relatedIn_def dest: in_set_takeD)
  then show "(series e \<noteq> None \<and> strictEquals (series e) (series p)) \<or>
      category e = category p"
    using truthy_not_null [of "series e"] by blast
qed

theorem getRelatedProducts_bounded_witness:
  "iph_16 \<in> set PRODUCTS \<and>
   iph_17 \<in> set (getRelatedProducts iph_16) \<and>
   iph_16 \<notin> set (getRelatedProducts iph_16) \<and>
   length (getRelatedProducts iph_16) \<le> 4 \<and>
   ((series iph_17 \<noteq> None \<and> strictEquals (series iph_17) (series iph_16)) \<or>
    category iph_17 = category iph_16) \<and>
   subseq (getRelatedProducts iph_16) PRODUCTS"
proof -
  have c: "iph_16 \<in> set PRODUCTS"
    by (simp add: PRODUCTS_def)
  have m: "iph_17 \<in> set (getRelatedProducts iph_16)"
    by (simp add: getRelatedProducts_iph_16)
  have t: "iph_16 \<notin> set (getRelatedProducts iph_16) \<and>
   length (getRelatedProducts iph_16) \<le> 4 \<and>
   (\<forall>e \<in> set (getRelatedProducts iph_16).
      (series e \<noteq> None \<and> strictEquals (series e) (series iph_16)) \<or>
      category e = category iph_16) \<and>
   subseq (getRelatedProducts iph_16) PRODUCTS"
    by (rule getRelatedProducts_bounded)
  from t have "(series iph_17 \<noteq> None \<and> strictEquals (series iph_17) (series iph_16)) \<or>
      category iph_17 = category iph_16"
    using m by (elim conjE) (erule bspec)
  with c m t show ?thesis
    by (elim conjE) (intro conjI)
qed

section \<open>The pipeline selects from its input\<close>

lemma stage_subseq:
  "subseq (filterByCategory xs c) xs" "subseq (filterBySeries xs c) xs"
  "subseq (filterByCondition xs c) xs" "subseq (filterBySearch xs c) xs"
  by (simp_all add: filterByCategory_def filterBySeries_def filterByCondition_def
      filterBySearch_def Let_def)

lemma applyFilters_unfold:
  "applyFilters catalog st =
     filterBySearch (filterByCondition (filterBySeries (filterByCategory catalog
       (st_category st)) (st_series st)) (st_condition st)) (st_search st)"
  by (simp add: applyFilters_def reduce_def stages_def)

lemma applyFilters_subseq: "subseq (applyFilters catalog st) catalog"
proof -
  let ?a = "filterByCategory catalog (st_category st)"
  let ?b = "filterBySeries ?a (st_series st)"
  let ?c = "filterByCondition ?b (st_condition st)"
  have "subseq (filterBySearch ?c (st_search st)) ?c" by (rule stage_subseq)
  also have "subseq ?c ?b" by (rule stage_subseq)
  also have "subseq ?b ?a" by (rule stage_subseq)
  also have "subseq ?a catalog" by (rule stage_subseq)
  finally show ?thesis by (simp add: applyFilters_unfold)
qed

lemma subseq_count_le: "subseq xs ys \<Longrightarrow> count_list xs x \<le> count_list ys x"
  by (induction rule: list_emb.induct) auto

lemma subseq_set_subset: "subseq xs ys \<Longrightarrow> set xs \<subseteq> set ys"
  by (induction rule: list_emb.induct) auto

text \<open>
  Claim C5. For every table and every filter state, the output of the pipeline is a
  selection from the table: each product of the output is a product of the table, no
  product occurs more often in the output than in the table, and the order is the table's.
  \<open>getFilteredProducts\<close> is the pipeline on the seeded table.
\<close>

theorem applyFilters_subset:
  "set (applyFilters catalog st) \<subseteq> set catalog \<and>
   (\<forall>p. count_list (applyFilters catalog st) p \<le> count_list catalog p) \<and>
   subseq (applyFilters catalog st) catalog \<and>
   getFilteredProducts st = applyFilters PRODUCTS st"
  using applyFilters_subseq [of catalog st]
  by (simp add: subseq_count_le subseq_set_subset getFilteredProducts_def)

section \<open>The order of the stages\<close>

lemma filter_True_id: "(\<lambda>xs. xs) = filter (\<lambda>_. True)"
  by (rule ext) simp

lemma stages_are_filters: "f \<in> set (stages st) \<Longrightarrow> \<exists>P. f = filter P"
proof -
  have c: "\<exists>P. (\<lambda>p. filterByCategory p c) = filter P" for c
    by (cases "c = ''all''") (auto simp: filterByCategory_def filter_True_id)
  have s: "\<exists>P. (\<lambda>p. filterBySeries p c) = filter P" for c
    by (cases "c = ''all''") (auto simp: filterBySeries_def filter_True_id)
  have d: "\<exists>P. (\<lambda>p. filterByCondition p c) = filter P" for c
    by (cases "c = ''all''") (auto simp: filterByCondition_def filter_True_id)
  have q: "\<exists>P. (\<lambda>p. filterBySearch p c) = filter P" for c
    by (cases "trim c = []") (auto simp: filterBySearch_def filter_True_id)
  assume "f \<in> set (stages st)"
  then show ?thesis
    using c s d q by (auto simp: stages_def)
qed

lemma reduce_Cons: "reduce (f # fns) xs = reduce fns (f xs)"
  by (simp add: reduce_def)

lemma reduce_filters:
  "(\<And>f. f \<in> set fns \<Longrightarrow> \<exists>P. f = filter P) \<Longrightarrow>
   reduce fns xs = filter (\<lambda>x. \<forall>f \<in> set fns. f [x] = [x]) xs"
proof (induction fns arbitrary: xs)
  case Nil
  then show ?case by (simp add: reduce_def)
next
  case (Cons f fns)
  from Cons.prems obtain P where f: "f = filter P" by auto
  have "reduce fns (f xs) = filter (\<lambda>x. \<forall>g \<in> set fns. g [x] = [x]) (f xs)"
    by (rule Cons.IH) (simp add: Cons.prems)
  then show ?case
    by (auto simp: reduce_Cons f intro: filter_cong)
qed

text \<open>
  Claim C6. For every table and every filter state, reducing the table over the four stages
  taken in any order (any list with the same members, each once) gives the list that the
  fixed order of the pipeline gives.
\<close>

theorem stage_order_irrelevant:
  assumes "mset fns = mset (stages st)"
  shows "reduce fns catalog = applyFilters catalog st"
proof -
  from assms have eq: "set fns = set (stages st)"
    by (rule mset_eq_setD)
  have "reduce fns catalog = filter (\<lambda>x. \<forall>f \<in> set fns. f [x] = [x]) catalog"
    by (rule reduce_filters) (simp add: eq stages_are_filters)
  also have "\<dots> = reduce (stages st) catalog"
    unfolding eq by (rule reduce_filters [symmetric]) (rule stages_are_filters)
  finally show ?thesis
    by (simp add: applyFilters_def)
qed

theorem stage_order_irrelevant_witness:
  "mset [\<lambda>p. filterBySearch p ''pro'', \<lambda>p. filterByCondition p ''nuevo'',
         \<lambda>p. filterBySeries p ''16'', \<lambda>p. filterByCategory p ''iphone'']
     = mset (stages \<lparr>st_category = ''iphone'', st_series = ''16'', st_condition = ''nuevo'',
                     st_search = ''pro''\<rparr>) \<and>
   reduce [\<lambda>p. filterBySearch p ''pro'', \<lambda>p. filterByCondition p ''nuevo'',
           \<lambda>p. filterBySeries p ''16'', \<lambda>p. filterByCategory p ''iphone''] PRODUCTS
     = applyFilters PRODUCTS
         \<lparr>st_category = ''iphone'', st_series = ''16'', st_condition = ''nuevo'',
          st_search = ''pro''\<rparr>"
proof -
  have m: "mset [\<lambda>p. filterBySearch p ''pro'', \<lambda>p. filterByCondition p ''nuevo'',
         \<lambda>p. filterBySeries p ''16'', \<lambda>p. filterByCategory p ''iphone'']
     = mset (stages \<lparr>st_category = ''iphone'', st_series = ''16'', st_condition = ''nuevo'',
                     st_search = ''pro''\<rparr>)"
    by (simp add: stages_def)
  from m stage_order_irrelevant [OF m, of PRODUCTS] show ?thesis
    by (intro conjI)
qed

section \<open>Substring search\<close>

lemma includes_js_iff: "includes_js hay needle \<longleftrightarrow> (\<exists>pre post. hay = pre @ needle @ post)"
proof (induction hay)
  case Nil
  then show ?case by auto
next
  case (Cons c cs)
  have "(\<exists>pre post. c # cs = pre @ needle @ post) \<longleftrightarrow>
        prefix needle (c # cs) \<or> (\<exists>pre post. cs = pre @ needle @ post)"
  proof
    assume "\<exists>pre post. c # cs = pre @ needle @ post"
    then obtain pre post where e: "c # cs = pre @ needle @ post" by blast
    show "prefix needle (c # cs) \<or> (\<exists>pre post. cs = pre @ needle @ post)"
    proof (cases pre)
      case Nil
      with e show ?thesis by (auto simp: prefix_def)
    next
      case (Cons a pre')
      with e show ?thesis by auto
    qed
  next
    assume "prefix needle (c # cs) \<or> (\<exists>pre post. cs = pre @ needle @ post)"
    then show "\<exists>pre post. c # cs = pre @ needle @ post"
    proof
      assume "prefix needle (c # cs)"
      then obtain post where "c # cs = [] @ needle @ post" by (auto simp: prefix_def)
      then show ?thesis by blast
    next
      assume "\<exists>pre post. cs = pre @ needle @ post"
      then obtain pre post where "cs = pre @ needle @ post" by blast
      then have "c # cs = (c # pre) @ needle @ post" by simp
      then show ?thesis by blast
    qed
  qed
  with Cons.IH show ?case by simp
qed

lemma map_eq_map_iff: "map f xs = map f ys \<longleftrightarrow> list_all2 (\<lambda>x y. f x = f y) xs ys"
proof (induction xs arbitrary: ys)
  case Nil
  then show ?case by auto
next
  case (Cons x xs)
  then show ?case by (cases ys) auto
qed

lemma map_split:
  assumes "map f xs = a @ b"
  shows "\<exists>p q. xs = p @ q \<and> map f p = a \<and> map f q = b"
proof (intro exI conjI)
  show "xs = take (length a) xs @ drop (length a) xs" by simp
  show "map f (take (length a) xs) = a"
    using assms by (simp add: take_map [symmetric])
  show "map f (drop (length a) xs) = b"
    using assms by (simp add: drop_map [symmetric])
qed

lemma includes_js_lowered:
  "includes_js (toLowerCase hay) (toLowerCase needle) \<longleftrightarrow> containsIgnoringCase hay needle"
proof -
  have "includes_js (toLowerCase hay) (toLowerCase needle) \<longleftrightarrow>
        (\<exists>pre post. map lowerChar hay = pre @ map lowerChar needle @ post)"
    by (simp add: includes_js_iff toLowerCase_def)
  also have "\<dots> \<longleftrightarrow> (\<exists>p m s. hay = p @ m @ s \<and> map lowerChar m = map lowerChar needle)"
  proof
    assume "\<exists>pre post. map lowerChar hay = pre @ map lowerChar needle @ post"
    then obtain pre post where "map lowerChar hay = pre @ map lowerChar needle @ post"
      by blast
    then obtain p rest where h: "hay = p @ rest"
      and r: "map lowerChar rest = map lowerChar needle @ post"
      using map_split by blast
    from r obtain m s where "rest = m @ s" "map lowerChar m = map lowerChar needle"
      using map_split by blast
    with h show "\<exists>p m s. hay = p @ m @ s \<and> map lowerChar m = map lowerChar needle"
      by blast
  next
    assume "\<exists>p m s. hay = p @ m @ s \<and> map lowerChar m = map lowerChar needle"
    then obtain p m s where "hay = p @ m @ s" "map lowerChar m = map lowerChar needle"
      by blast
    then have "map lowerChar hay = map lowerChar p @ map lowerChar needle @ map lowerChar s"
      by simp
    then show "\<exists>pre post. map lowerChar hay = pre @ map lowerChar needle @ post"
      by blast
  qed
  also have "\<dots> \<longleftrightarrow> (\<exists>m. sublist m hay \<and> equalIgnoringCase m needle)"
    by (auto simp: sublist_def equalIgnoringCase_def map_eq_map_iff)
  also have "\<dots> \<longleftrightarrow> containsIgnoringCase hay needle"
    by (auto simp: containsIgnoringCase_def list_ex_iff)
  finally show ?thesis .
qed

lemma bit_one_zero: "bit (Suc 0) (0::nat)"
  by (simp add: bit_0)

lemmas lower_eval = toLowerCase_def lowerChar_def char_of_def bit_one_zero

lemma lowered_names:
  "toLowerCase (name iph_17_pro_max) = ''iphone 17 pro max''"
  "toLowerCase (name iph_17) = ''iphone 17''"
  "toLowerCase (name iph_16_pro_max) = ''iphone 16 pro max''"
  "toLowerCase (name iph_16) = ''iphone 16 negro''"
  "toLowerCase (name iph_16_pink) = ''iphone 16 rosa''"
  "toLowerCase (name iph_16_white) = ''iphone 16 blanco''"
  "toLowerCase (name iph_15_pro_max) = ''iphone 15 pro max''"
  "toLowerCase (name iph_15_black) = ''iphone 15 negro''"
  "toLowerCase (name iph_15_cream) = ''iphone 15 crema''"
  "toLowerCase (name iph_15_white) = ''iphone 15 blanco''"
  "toLowerCase (name acc_cargador_40w) = ''cargador apple 40w''"
  "toLowerCase (name acc_cable_typec) = ''cable anker usb-c''"
  "toLowerCase (name acc_airpods_4) = ''airpods serie 4''"
  "toLowerCase (name rep_camara_frontal_15) = (''c'' @ [CHR 0xE1] @ ''mara frontal 15 pro max'')"
  "toLowerCase (name rep_camara_trasera_14) = (''c'' @ [CHR 0xE1] @ ''mara trasera serie 14'')"
  "toLowerCase (name rep_bateria_15) = (''bater'' @ [CHR 0xED] @ ''a iphone 15 pro max'')"
  by (simp_all add: product_names product_specs lower_eval)

lemma lowered_specs:
  "map toLowerCase (specs iph_17_pro_max) = [''a19 pro'', ''titanio'', ''256gb'']"
  "map toLowerCase (specs iph_17) = [''a19'', (''6.1'' @ [CHR 0x22]), ''128gb'']"
  "map toLowerCase (specs iph_16_pro_max) = [''a18 pro'', ''titanio'', ''256gb'']"
  "map toLowerCase (specs iph_16) = [''a18'', (''6.1'' @ [CHR 0x22]), ''128gb'', ''negro titanio'']"
  "map toLowerCase (specs iph_16_pink) = [''a18'', (''6.1'' @ [CHR 0x22]), ''128gb'', ''rosa'']"
  "map toLowerCase (specs iph_16_white) = [''a18'', (''6.1'' @ [CHR 0x22]), ''128gb'', ''blanco'']"
  "map toLowerCase (specs iph_15_pro_max) = [''a17 pro'', ''titanio'', ''256gb'']"
  "map toLowerCase (specs iph_15_black) = [''a16 bionic'', (''6.1'' @ [CHR 0x22]), ''128gb'']"
  "map toLowerCase (specs iph_15_cream) = [''a16 bionic'', (''6.1'' @ [CHR 0x22]), ''128gb'', ''crema'']"
  "map toLowerCase (specs iph_15_white) = [''a16 bionic'', (''6.1'' @ [CHR 0x22]), ''128gb'', ''blanco'']"
  "map toLowerCase (specs acc_cargador_40w) = [''original apple'', ''40w'', ''usb-c'']"
  "map toLowerCase (specs acc_cable_typec) = [''nylon trenzado'', ''1 metro'', ''usb-c a usb-c'']"
  "map toLowerCase (specs acc_airpods_4) = [''original apple'', ''anc activo'', ''usb-c'', ''h2 chip'']"
  "map toLowerCase (specs rep_camara_frontal_15) = [''original apple'', ''serie 13 al 15'', (''incluye instalaci'' @ [CHR 0xF3] @ ''n'')]"
  "map toLowerCase (specs rep_camara_trasera_14) = [''original apple'', ''serie 14 al 16'', (''incluye instalaci'' @ [CHR 0xF3] @ ''n'')]"
  "map toLowerCase (specs rep_bateria_15) = [''original apple'', ''serie 14 al 16'', (''incluye instalaci'' @ [CHR 0xF3] @ ''n''), ''100% salud'']"
  by (simp_all add: product_names product_specs lower_eval)

lemma searchMatches_lowered:
  "searchMatches n p =
     (includes_js (toLowerCase (name p)) n \<or>
      list_ex (\<lambda>s. includes_js s n) (map toLowerCase (specs p)))"
  by (simp add: searchMatches_def list_ex_iff)

lemma lowered_queries:
  "toLowerCase ''pro'' = ''pro''" "toLowerCase ''max '' = ''max ''"
  "toLowerCase ''max'' = ''max''" "toLowerCase '' pro'' = '' pro''"
  by (simp_all add: lower_eval)

lemmas search_eval =
  filterBySearch_def trim_def isWhiteSpace_def searchMatches_lowered PRODUCTS_def
  lowered_names lowered_specs lowered_queries Let_def

lemma search_pro:
  "filterBySearch PRODUCTS ''pro'' =
     [iph_17_pro_max, iph_16_pro_max, iph_15_pro_max, rep_camara_frontal_15, rep_bateria_15]"
  by (simp add: search_eval)

lemma search_max_trailing: "filterBySearch PRODUCTS ''max '' = []"
  by (simp add: search_eval)

lemma search_max:
  "filterBySearch PRODUCTS (trim ''max '') =
     [iph_17_pro_max, iph_16_pro_max, iph_15_pro_max, rep_camara_frontal_15, rep_bateria_15]"
  by (simp add: search_eval)


lemma searchMatches_ignoring_case:
  "searchMatches (toLowerCase query) p \<longleftrightarrow>
     containsIgnoringCase (name p) query \<or> (\<exists>s \<in> set (specs p). containsIgnoringCase s query)"
  by (simp add: searchMatches_def includes_js_lowered list_ex_iff)

lemma searchMatches_pieces:
  "searchMatches (toLowerCase query) p \<longleftrightarrow>
     (\<exists>hay \<in> set (name p # specs p).
        \<exists>pre post. toLowerCase hay = pre @ toLowerCase query @ post)"
  by (simp add: searchMatches_def includes_js_iff list_ex_iff)

lemma A18_Pro_includes_pro: "includes_js (toLowerCase ''A18 Pro'') ''pro''"
  by (simp add: lower_eval)

lemma name_15_includes_pro: "includes_js (toLowerCase ''iPhone 15 Pro Max'') ''pro''"
  by (simp add: lower_eval)

text \<open>
  Claim C7. \<open>filterBySearch\<close> returns its input when the query is empty or white space
  only. Otherwise it keeps, in order, exactly the products whose name or at least one spec
  entry contains the query as a case-insensitive substring. On the seeded table the query
  "pro" keeps the product named "iPhone 15 Pro Max" and every product with the spec entry
  "A18 Pro".
\<close>

theorem filterBySearch_spec:
  "(trim blank = [] \<longrightarrow> filterBySearch products blank = products) \<and>
   (trim query \<noteq> [] \<longrightarrow>
      filterBySearch products query =
        filter (\<lambda>p. containsIgnoringCase (name p) query \<or>
                    (\<exists>s \<in> set (specs p). containsIgnoringCase s query)) products) \<and>
   (\<forall>p \<in> set PRODUCTS.
      name p = ''iPhone 15 Pro Max'' \<or> ''A18 Pro'' \<in> set (specs p) \<longrightarrow>
      p \<in> set (filterBySearch PRODUCTS ''pro''))"
proof (intro conjI impI ballI)
  assume "trim blank = []"
  then show "filterBySearch products blank = products"
    by (simp add: filterBySearch_def)
next
  assume "trim query \<noteq> []"
  then show "filterBySearch products query =
        filter (\<lambda>p. containsIgnoringCase (name p) query \<or>
                    (\<exists>s \<in> set (specs p). containsIgnoringCase s query)) products"
    unfolding filterBySearch_def Let_def
    by (simp add: searchMatches_ignoring_case cong: filter_cong)
next
  fix p
  assume p: "p \<in> set PRODUCTS"
    and m: "name p = ''iPhone 15 Pro Max'' \<or> ''A18 Pro'' \<in> set (specs p)"
  from m have "searchMatches ''pro'' p"
  proof
    assume "name p = ''iPhone 15 Pro Max''"
    then show ?thesis
      using name_15_includes_pro by (simp add: searchMatches_def)
  next
    assume "''A18 Pro'' \<in> set (specs p)"
    then show ?thesis
      using A18_Pro_includes_pro by (auto simp: searchMatches_def list_ex_iff)
  qed
  with p show "p \<in> set (filterBySearch PRODUCTS ''pro'')"
    by (simp add: filterBySearch_def trim_def isWhiteSpace_def lowered_queries)
qed

theorem filterBySearch_spec_witness:
  "trim ''  '' = [] \<and> trim ''pro'' \<noteq> [] \<and>
   iph_15_pro_max \<in> set PRODUCTS \<and> name iph_15_pro_max = ''iPhone 15 Pro Max'' \<and>
   iph_16_pro_max \<in> set PRODUCTS \<and> ''A18 Pro'' \<in> set (specs iph_16_pro_max) \<and>
   filterBySearch PRODUCTS ''  '' = PRODUCTS \<and>
   filterBySearch PRODUCTS ''pro'' =
     filter (\<lambda>p. containsIgnoringCase (name p) ''pro'' \<or>
                 (\<exists>s \<in> set (specs p). containsIgnoringCase s ''pro'')) PRODUCTS \<and>
   iph_15_pro_max \<in> set (filterBySearch PRODUCTS ''pro'') \<and>
   iph_16_pro_max \<in> set (filterBySearch PRODUCTS ''pro'')"
proof -
  have b: "trim ''  '' = []" and q: "trim ''pro'' \<noteq> []"
    by (simp_all add: trim_def isWhiteSpace_def)
  have m: "iph_15_pro_max \<in> set PRODUCTS" "iph_16_pro_max \<in> set PRODUCTS"
    by (simp_all add: PRODUCTS_def)
  have n: "name iph_15_pro_max = ''iPhone 15 Pro Max''"
    "''A18 Pro'' \<in> set (specs iph_16_pro_max)"
    by (simp_all add: product_names product_specs)
  note t = filterBySearch_spec [of "''  ''" PRODUCTS "''pro''"]
  from t b have 1: "filterBySearch PRODUCTS ''  '' = PRODUCTS" by blast
  from t q have 2: "filterBySearch PRODUCTS ''pro'' =
     filter (\<lambda>p. containsIgnoringCase (name p) ''pro'' \<or>
                 (\<exists>s \<in> set (specs p). containsIgnoringCase s ''pro'')) PRODUCTS" by blast
  from t m(1) n(1) have 3: "iph_15_pro_max \<in> set (filterBySearch PRODUCTS ''pro'')" by blast
  from t m(2) n(2) have 4: "iph_16_pro_max \<in> set (filterBySearch PRODUCTS ''pro'')" by blast
  from b q m n 1 2 3 4 show ?thesis by (intro conjI)
qed

text \<open>
  Claim C10. When the query has a character that is not white space, a product is kept
  exactly when its lowered name or one of its lowered spec entries contains the whole
  lowered query, white space at its ends included: the query " pro" keeps a product only if
  a name or spec entry of it holds a space followed by "pro". Trimming decides the
  pass-through and nothing else: on the seeded table "max " keeps nothing, while its
  trimmed form "max" keeps five products.
\<close>

theorem filterBySearch_untrimmed:
  "(trim query \<noteq> [] \<longrightarrow>
      filterBySearch products query =
        filter (\<lambda>p. \<exists>hay \<in> set (name p # specs p).
                      \<exists>pre post. toLowerCase hay = pre @ toLowerCase query @ post) products) \<and>
   (p \<in> set (filterBySearch products '' pro'') \<longleftrightarrow>
      p \<in> set products \<and>
      (\<exists>hay \<in> set (name p # specs p). \<exists>pre post. toLowerCase hay = pre @ '' pro'' @ post)) \<and>
   filterBySearch PRODUCTS ''max '' = [] \<and>
   filterBySearch PRODUCTS (trim ''max '') =
     [iph_17_pro_max, iph_16_pro_max, iph_15_pro_max, rep_camara_frontal_15, rep_bateria_15]"
proof (intro conjI impI)
  assume "trim query \<noteq> []"
  then show "filterBySearch products query =
        filter (\<lambda>p. \<exists>hay \<in> set (name p # specs p).
                      \<exists>pre post. toLowerCase hay = pre @ toLowerCase query @ post) products"
    unfolding filterBySearch_def Let_def
    by (simp add: searchMatches_pieces cong: filter_cong)
next
  have "trim '' pro'' \<noteq> []"
    by (simp add: trim_def isWhiteSpace_def)
  then have "filterBySearch products '' pro'' = filter (searchMatches (toLowerCase '' pro'')) products"
    by (simp add: filterBySearch_def Let_def)
  then show "p \<in> set (filterBySearch products '' pro'') \<longleftrightarrow>
      p \<in> set products \<and>
      (\<exists>hay \<in> set (name p # specs p). \<exists>pre post. toLowerCase hay = pre @ '' pro'' @ post)"
    using searchMatches_pieces [of "'' pro''" p] by (simp add: lowered_queries)
next
  show "filterBySearch PRODUCTS ''max '' = []"
    by (rule search_max_trailing)
  show "filterBySearch PRODUCTS (trim ''max '') =
     [iph_17_pro_max, iph_16_pro_max, iph_15_pro_max, rep_camara_frontal_15, rep_bateria_15]"
    by (rule search_max)
qed

lemma search_space_pro:
  "filterBySearch PRODUCTS '' pro'' =
     [iph_17_pro_max, iph_16_pro_max, iph_15_pro_max, rep_camara_frontal_15, rep_bateria_15]"
  by (simp add: search_eval)

theorem filterBySearch_untrimmed_witness:
  "trim '' pro'' \<noteq> [] \<and>
   filterBySearch PRODUCTS '' pro'' =
     filter (\<lambda>p. \<exists>hay \<in> set (name p # specs p).
                   \<exists>pre post. toLowerCase hay = pre @ toLowerCase '' pro'' @ post) PRODUCTS \<and>
   iph_16_pro_max \<in> set (filterBySearch PRODUCTS '' pro'') \<and>
   (\<exists>hay \<in> set (name iph_16_pro_max # specs iph_16_pro_max).
      \<exists>pre post. toLowerCase hay = pre @ '' pro'' @ post)"
proof -
  have q: "trim '' pro'' \<noteq> []"
    by (simp add: trim_def isWhiteSpace_def)
  have m: "iph_16_pro_max \<in> set (filterBySearch PRODUCTS '' pro'')"
    by (simp add: search_space_pro)
  note t = filterBySearch_untrimmed [of "'' pro''" PRODUCTS iph_16_pro_max]
  from t q have 1: "filterBySearch PRODUCTS '' pro'' =
     filter (\<lambda>p. \<exists>hay \<in> set (name p # specs p).
                   \<exists>pre post. toLowerCase hay = pre @ toLowerCase '' pro'' @ post) PRODUCTS"
    by blast
  from t m have 2: "\<exists>hay \<in> set (name iph_16_pro_max # specs iph_16_pro_max).
      \<exists>pre post. toLowerCase hay = pre @ '' pro'' @ post"
    by blast
  from q 1 m 2 show ?thesis by (intro conjI)
qed

section \<open>Malformed series selections\<close>

lemma strictEquals_NaN: "\<not> strictEquals v (Some NaN)"
  by (cases v) simp_all

lemma filterBySeries_NaN:
  "ser \<noteq> ''all'' \<Longrightarrow> Number ser = NaN \<Longrightarrow> filterBySeries products ser = []"
  by (simp add: filterBySeries_def strictEquals_NaN)

lemma filterBySeries_PRODUCTS:
  "ser \<noteq> ''all'' \<Longrightarrow> Number ser \<notin> {Fin 15, Fin 16, Fin 17} \<Longrightarrow>
   filterBySeries PRODUCTS ser = []"
  by (auto simp: filterBySeries_def PRODUCTS_def product_series)

lemma unsignedDecimal_NaN:
  assumes "\<not> isDigit c" "c \<noteq> CHR ''.''" "c \<noteq> CHR ''I''"
  shows "unsignedDecimal (c # r) = NaN"
  using assms by (simp add: unsignedDecimal_def)

lemma Number_NaN_first:
  assumes "trim ser = c # r" "\<not> isDigit c"
    and "c \<noteq> CHR ''.''" "c \<noteq> CHR ''I''" "c \<noteq> CHR ''+''" "c \<noteq> CHR ''-''"
  shows "Number ser = NaN"
proof -
  have z: "c \<noteq> CHR ''0''"
    using assms(2) by (auto simp: isDigit_def)
  have "numericLiteral (c # r) = unsignedDecimal (c # r)"
    using z assms by (cases r) (simp_all add: numericLiteral_def)
  then show ?thesis
    using assms by (simp add: Number_def unsignedDecimal_NaN)
qed

lemma Number_abc: "Number ''abc'' = NaN"
  by (rule Number_NaN_first [of _ "CHR ''a''" "''bc''"])
     (simp_all add: trim_def isWhiteSpace_def isDigit_def)

text \<open>
  Claim C8. For every series selection other than "all" that is not a numeric literal (its
  coercion by \<open>Number\<close> is \<open>NaN\<close>) or is blank (its coercion is zero),
  \<open>filterBySeries\<close> on the seeded table returns the empty list. The function is total:
  it has no failing branch.
\<close>

theorem filterBySeries_malformed:
  assumes "ser \<noteq> ''all''" and "Number ser = NaN \<or> trim ser = []"
  shows "filterBySeries PRODUCTS ser = []"
proof -
  from assms(2) have "Number ser \<notin> {Fin 15, Fin 16, Fin 17}"
    by (auto simp: Number_blank)
  with assms(1) show ?thesis
    by (rule filterBySeries_PRODUCTS)
qed

theorem filterBySeries_malformed_witness:
  "''abc'' \<noteq> ''all'' \<and> Number ''abc'' = NaN \<and> filterBySeries PRODUCTS ''abc'' = [] \<and>
   '''' \<noteq> ''all'' \<and> trim '''' = [] \<and> filterBySeries PRODUCTS '''' = []"
proof -
  have a: "''abc'' \<noteq> ''all''" and b: "Number ''abc'' = NaN"
    by (simp_all add: Number_abc)
  have c: "'''' \<noteq> ''all''" and d: "trim '''' = []"
    by (simp_all add: trim_def)
  from b have b': "Number ''abc'' = NaN \<or> trim ''abc'' = []" ..
  from d have d': "Number '''' = NaN \<or> trim '''' = []" ..
  from a b c d filterBySeries_malformed [OF a b'] filterBySeries_malformed [OF c d']
  show ?thesis by (intro conjI)
qed

section \<open>The stages and the store\<close>

lemma array_filter_effect:
  "r < length h \<Longrightarrow> stage_effect h r (array_filter P h r) (filter P (h ! r)) False"
  by (simp add: stage_effect_def array_filter_def alloc_def)

lemma passthrough_effect:
  "r < length h \<Longrightarrow> stage_effect h r (Some (h, r)) (h ! r) True"
  by (simp add: stage_effect_def)

text \<open>
  What each stage does to the store. Given an array \<open>r\<close> of the store, the stage returns;
  it leaves every array of the store as it was, the input array included; the array it
  returns holds the filtered products. In the filtering branch the returned array is the
  one newly allocated array; in the branch of the early \<open>return products\<close> nothing is
  allocated and the returned reference is \<open>r\<close>.
\<close>

lemma stages_frame:
  assumes "r < length h"
  shows "stage_effect h r (filterByCategory_ref h r cat) (filterByCategory (h ! r) cat)
           (cat = ''all'') \<and>
         stage_effect h r (filterBySeries_ref h r ser) (filterBySeries (h ! r) ser)
           (ser = ''all'') \<and>
         stage_effect h r (filterByCondition_ref h r cond) (filterByCondition (h ! r) cond)
           (cond = ''all'') \<and>
         stage_effect h r (filterBySearch_ref h r query) (filterBySearch (h ! r) query)
           (trim query = [])"
  using assms
  by (simp add: filterByCategory_ref_def filterByCategory_def filterBySeries_ref_def
      filterBySeries_def filterByCondition_ref_def filterByCondition_def
      filterBySearch_ref_def filterBySearch_def Let_def array_filter_effect
      passthrough_effect)

text \<open>
  Claim C3 asks every stage to return a new array, also for the selection "all" and for the
  empty query, as the header of the catalog page's script promises ("they return new
  arrays"). The code does not keep that promise there: with the seeded table as the only
  array of the store, at reference 0, each stage called with "all" (the search stage with
  the empty query) returns reference 0, the array it was given, and allocates nothing.
\<close>

theorem stages_return_input_array:
  "filterByCategory_ref [PRODUCTS] 0 ''all'' = Some ([PRODUCTS], 0) \<and>
   filterBySeries_ref [PRODUCTS] 0 ''all'' = Some ([PRODUCTS], 0) \<and>
   filterByCondition_ref [PRODUCTS] 0 ''all'' = Some ([PRODUCTS], 0) \<and>
   filterBySearch_ref [PRODUCTS] 0 '''' = Some ([PRODUCTS], 0)"
  by (simp add: filterByCategory_ref_def filterBySeries_ref_def filterByCondition_ref_def
      filterBySearch_ref_def trim_def)

lemma filterByCategory_accesorio:
  "filterByCategory PRODUCTS ''accesorio'' = [acc_cargador_40w, acc_cable_typec, acc_airpods_4]"
  by (simp add: filterByCategory_def PRODUCTS_def product_categories)

lemma stages_frame_example:
  "(0::nat) < length [PRODUCTS] \<and>
   filterByCategory_ref [PRODUCTS] 0 ''accesorio''
     = Some ([PRODUCTS, [acc_cargador_40w, acc_cable_typec, acc_airpods_4]], 1) \<and>
   filterByCategory_ref [PRODUCTS] 0 ''all'' = Some ([PRODUCTS], 0)"
proof -
  have l: "(0::nat) < length [PRODUCTS]" by simp
  from stages_frame [OF l, of "''accesorio''" "''all''" "''all''" "''''"]
  have "stage_effect [PRODUCTS] 0 (filterByCategory_ref [PRODUCTS] 0 ''accesorio'')
     (filterByCategory ([PRODUCTS] ! 0) ''accesorio'') (''accesorio'' = ''all'')"
    by (rule conjunct1)
  then have a: "filterByCategory_ref [PRODUCTS] 0 ''accesorio''
     = Some ([PRODUCTS, [acc_cargador_40w, acc_cable_typec, acc_airpods_4]], 1)"
    by (auto simp: stage_effect_def filterByCategory_accesorio split: option.splits)
  from stages_frame [OF l, of "''all''" "''all''" "''all''" "''''"]
  have "stage_effect [PRODUCTS] 0 (filterByCategory_ref [PRODUCTS] 0 ''all'')
     (filterByCategory ([PRODUCTS] ! 0) ''all'') (''all'' = ''all'')"
    by (rule conjunct1)
  then have b: "filterByCategory_ref [PRODUCTS] 0 ''all'' = Some ([PRODUCTS], 0)"
    by (auto simp: stage_effect_def split: option.splits)
  from l a b show ?thesis by (intro conjI)
qed

end
